theory Spec2Isabelle
  imports Complex_Main "HOL-Library.Multiset" "HOL-Library.Sublist"
begin

section \<open>Data model\<close>

text \<open>
  The two Sequelize models (\<^verbatim>\<open>Category.init\<close>, \<^verbatim>\<open>Todo.init\<close>) as records. Field names
  carry a prefix because record fields are global constants in HOL (\<open>id\<close> is taken, and
  both models have \<open>createdAt\<close> and \<open>updatedAt\<close>). Identifiers are the INTEGER primary
  keys; timestamps are milliseconds, as JavaScript's \<^verbatim>\<open>Date\<close> counts them. Columns are typed
  as \<^verbatim>\<open>TodoAttributes\<close> and \<^verbatim>\<open>CategoryAttributes\<close> type them: \<open>title\<close>, \<open>completed\<close> and
  \<open>priority\<close> hold a value, \<open>description\<close>, \<open>due_date\<close> and \<open>category_id\<close> may be null
  (\<open>None\<close>). Column sizes are not modelled: every string is taken to fit its column.
\<close>

record category =
  c_id :: int
  c_name :: string
  c_color :: string
  c_createdAt :: nat
  c_updatedAt :: nat

record todo =
  t_id :: int
  t_title :: string
  t_description :: "string option"
  t_completed :: bool
  t_priority :: string
  t_due_date :: "nat option"
  t_category_id :: "int option"
  t_createdAt :: nat
  t_updatedAt :: nat

text \<open>
  The database behind \<^verbatim>\<open>db\<close>: the rows of the two tables and the two identifier
  sequences (\<^verbatim>\<open>autoIncrement\<close>). Every operation takes the store and, when it writes,
  returns the new one.
\<close>

record store =
  todos :: "todo list"
  categories :: "category list"
  todo_seq :: int
  category_seq :: int

text \<open>
  What a handler sends when it does not succeed: the HTTP status and the \<open>message\<close> of the
  JSON body. The specification's error names are these responses: NotFoundError is a
  404, DuplicateError the 400 of the name check.
\<close>

datatype failure = Failure nat string

text \<open>A field of a JSON request body: left out (\<^verbatim>\<open>undefined\<close>), \<^verbatim>\<open>null\<close>, or a value.\<close>

datatype 'a field = Undefined | Null | Value 'a

text \<open>The \<^verbatim>\<open>include\<close> of every Todo read: the related Category's \<open>id\<close>, \<open>name\<close>, \<open>color\<close>.\<close>

record category_summary =
  cs_id :: int
  cs_name :: string
  cs_color :: string

record todo_with_category =
  tw_todo :: todo
  tw_category :: "category_summary option"

definition findByPk_Category :: "store \<Rightarrow> int \<Rightarrow> category option" where
  "findByPk_Category s i = find (\<lambda>c. c_id c = i) (categories s)"

definition findByPk_Todo :: "store \<Rightarrow> int \<Rightarrow> todo option" where
  "findByPk_Todo s i = find (\<lambda>t. t_id t = i) (todos s)"

definition include_category :: "store \<Rightarrow> todo \<Rightarrow> todo_with_category" where
  "include_category s t =
     \<lparr>tw_todo = t,
      tw_category =
        (case t_category_id t of
           None \<Rightarrow> None
         | Some i \<Rightarrow>
             map_option (\<lambda>c. \<lparr>cs_id = c_id c, cs_name = c_name c, cs_color = c_color c\<rparr>)
               (findByPk_Category s i))\<rparr>"

definition findByPk_Todo_included :: "store \<Rightarrow> int \<Rightarrow> todo_with_category option" where
  "findByPk_Todo_included s i = map_option (include_category s) (findByPk_Todo s i)"

section \<open>The list operation: \<^verbatim>\<open>getTodos\<close>\<close>

subsection \<open>The ILIKE operator\<close>

text \<open>
  \<^verbatim>\<open>Op.iLike\<close> is PostgreSQL's \<^verbatim>\<open>ILIKE\<close>. In a LIKE pattern \<open>%\<close> stands for any run of
  characters, \<open>_\<close> for any one character, and a backslash makes the character after it
  stand for itself; every other character stands for itself. A pattern that ends in a
  lone backslash is refused by PostgreSQL; \<open>like_match\<close> gives \<open>False\<close> there, and the
  patterns of \<^verbatim>\<open>getTodos\<close> never reach that case, since they end in the \<open>%\<close> the handler
  appends. ILIKE compares after folding both sides to lower case; \<open>to_lower\<close> folds the
  ASCII letters, so the model is about ASCII text.
\<close>

fun like_match :: "string \<Rightarrow> string \<Rightarrow> bool" where
  "like_match [] s = (s = [])"
| "like_match (p # ps) s =
     (if p = CHR ''%'' then
        (case s of
           [] \<Rightarrow> like_match ps []
         | c # cs \<Rightarrow> like_match ps (c # cs) \<or> like_match (p # ps) cs)
      else if p = CHR ''_'' then
        (case s of [] \<Rightarrow> False | c # cs \<Rightarrow> like_match ps cs)
      else if p = CHR 0x5C then
        (case ps of
           [] \<Rightarrow> False
         | e # es \<Rightarrow> (case s of [] \<Rightarrow> False | c # cs \<Rightarrow> c = e \<and> like_match es cs))
      else
        (case s of [] \<Rightarrow> False | c # cs \<Rightarrow> c = p \<and> like_match ps cs))"

definition to_lower :: "char \<Rightarrow> char" where
  "to_lower c =
     (if (65::nat) \<le> of_char c \<and> of_char c \<le> (90::nat)
      then char_of (of_char c + (32::nat)) else c)"

definition iLike :: "string \<Rightarrow> string \<Rightarrow> bool" where
  "iLike s pat = like_match (map to_lower pat) (map to_lower s)"

subsection \<open>The where clause\<close>

text \<open>
  \<^verbatim>\<open>req.query\<close>. Express delivers every parameter as a string or leaves it undefined
  (\<open>None\<close>). \<open>search\<close>, \<open>priority\<close> and \<open>completed\<close> are kept as the strings they are.
  \<open>page\<close>, \<open>limit\<close> and \<open>category\<close> are numerals on the wire: \<^verbatim>\<open>Number(page)\<close>,
  \<^verbatim>\<open>Number(limit)\<close> and the comparison of the INTEGER column \<open>category_id\<close> with the
  parameter read a numeral as its integer, and the model starts from that integer:
  \<open>q_page\<close> and \<open>q_limit\<close> are the integers \<^verbatim>\<open>Number()\<close> yields. Requests whose
  \<^verbatim>\<open>Number(page)\<close> or \<^verbatim>\<open>Number(limit)\<close> is not a finite integer, or whose \<open>category\<close> is not
  an integer numeral, are outside the model.
\<close>

record query =
  q_page :: "int option"
  q_limit :: "int option"
  q_search :: "string option"
  q_category :: "int option"
  q_priority :: "string option"
  q_completed :: "string option"

text \<open>
  The object \<^verbatim>\<open>where\<close>: each key is either set or missing. \<open>w_or_iLike\<close> is the pattern of
  the \<^verbatim>\<open>Op.or\<close> pair on \<open>title\<close> and \<open>description\<close>.
\<close>

record where_clause =
  w_or_iLike :: "string option"
  w_category_id :: "int option"
  w_priority :: "string option"
  w_completed :: "bool option"

text \<open>
  A JavaScript string is truthy when it is not empty. A supplied \<open>category\<close> is a numeral,
  hence a non-empty string, hence truthy.
\<close>

definition truthy :: "string \<Rightarrow> bool" where
  "truthy s = (s \<noteq> [])"

definition getTodos_where :: "query \<Rightarrow> where_clause" where
  "getTodos_where q =
     (let search = (case q_search q of None \<Rightarrow> [] | Some s \<Rightarrow> s) in
      \<lparr>w_or_iLike = (if truthy search then Some (''%'' @ search @ ''%'') else None),
       w_category_id = (case q_category q of None \<Rightarrow> None | Some c \<Rightarrow> Some c),
       w_priority =
         (case q_priority q of None \<Rightarrow> None | Some p \<Rightarrow> if truthy p then Some p else None),
       w_completed =
         (case q_completed q of None \<Rightarrow> None | Some c \<Rightarrow> Some (c = ''true''))\<rparr>)"

text \<open>
  What the WHERE of the generated SQL selects: the conjunction of the keys that are set.
  A comparison with a null column is not true, so a null \<open>description\<close> never matches the
  pattern and a null \<open>category_id\<close> never equals an identifier.
\<close>

definition where_matches :: "where_clause \<Rightarrow> todo \<Rightarrow> bool" where
  "where_matches w t =
     ((case w_or_iLike w of
         None \<Rightarrow> True
       | Some pat \<Rightarrow>
           iLike (t_title t) pat \<or>
           (case t_description t of None \<Rightarrow> False | Some d \<Rightarrow> iLike d pat)) \<and>
      (case w_category_id w of None \<Rightarrow> True | Some c \<Rightarrow> t_category_id t = Some c) \<and>
      (case w_priority w of None \<Rightarrow> True | Some p \<Rightarrow> t_priority t = p) \<and>
      (case w_completed w of None \<Rightarrow> True | Some b \<Rightarrow> t_completed t = b))"

subsection \<open>The window and the query\<close>

definition getTodos_page :: "query \<Rightarrow> int" where
  "getTodos_page q = (case q_page q of None \<Rightarrow> 1 | Some p \<Rightarrow> p)"

definition getTodos_limit :: "query \<Rightarrow> int" where
  "getTodos_limit q = (case q_limit q of None \<Rightarrow> 10 | Some l \<Rightarrow> l)"

text \<open>
  JavaScript numbers are doubles. An integer computation whose exact result is a safe
  integer (\<^verbatim>\<open>Number.isSafeInteger\<close>: at most \<open>2^53 - 1\<close> in magnitude) has that result, and
  Sequelize writes it into the SQL text digit for digit. Beyond that range the double is
  rounded (or infinite) and is printed in JavaScript's shortest form, which need not be
  the number itself. The model does not compute the rounding: \<open>double_result x v\<close> says
  that \<open>v\<close> is a number the database may read where the exact result is \<open>x\<close>, and beyond
  the safe range it admits every number of the same sign within a factor of two of \<open>x\<close>,
  which covers every rounded value (an infinite value and the larger integers are
  refused by the database alike, see \<open>findAndCountAll\<close>).

  \<open>number_text x v\<close> is the same for a number that is only printed, not computed: \<open>x\<close> is
  the value of a double, and the shortest decimal form of a double of at least \<open>2^63\<close>
  reads as at least \<open>2^63\<close> (that of \<open>2^63\<close> itself is 9223372036854776000).
\<close>

definition safe_integer :: "int \<Rightarrow> bool" where
  "safe_integer n = (- (2 ^ 53 - 1) \<le> n \<and> n \<le> 2 ^ 53 - 1)"

definition double_result :: "int \<Rightarrow> int \<Rightarrow> bool" where
  "double_result x v =
     (if safe_integer x then v = x
      else (0 < x) = (0 < v) \<and> \<bar>x\<bar> \<le> 2 * \<bar>v\<bar> \<and> \<bar>v\<bar> \<le> 2 * \<bar>x\<bar>)"

definition number_text :: "int \<Rightarrow> int \<Rightarrow> bool" where
  "number_text x v = (double_result x v \<and> (x < 2 ^ 63 \<or> 2 ^ 63 \<le> v))"

text \<open>
  \<^verbatim>\<open>const offset = (Number(page) - 1) * Number(limit)\<close>, computed in doubles: \<open>off\<close> is a
  value the database may read as the OFFSET. It is the exact product when that is a
  safe integer (then \<open>page - 1\<close> is one too, or the product is 0).
\<close>

definition getTodos_offset :: "query \<Rightarrow> int \<Rightarrow> bool" where
  "getTodos_offset q off = double_result ((getTodos_page q - 1) * getTodos_limit q) off"

record find_options =
  fo_where :: where_clause
  fo_limit :: int
  fo_offset :: int

text \<open>
  The options of the \<^verbatim>\<open>findAndCountAll\<close> call, as the database reads them: the where
  clause, \<^verbatim>\<open>limit: Number(limit)\<close> and \<^verbatim>\<open>offset\<close>.
\<close>

definition getTodos_options :: "query \<Rightarrow> find_options \<Rightarrow> bool" where
  "getTodos_options q opts =
     (fo_where opts = getTodos_where q \<and>
      number_text (getTodos_limit q) (fo_limit opts) \<and>
      getTodos_offset q (fo_offset opts))"

text \<open>The largest value of PostgreSQL's type bigint, the type of LIMIT and OFFSET.\<close>

definition bigint_max :: int where
  "bigint_max = 2 ^ 63 - 1"

text \<open>
  The order \<^verbatim>\<open>[['createdAt', 'DESC']]\<close> asks of the rows: no row comes before one that was
  created later. It says nothing about two rows created in the same millisecond.
\<close>

definition createdAt_desc :: "todo list \<Rightarrow> bool" where
  "createdAt_desc rows = sorted_wrt (\<lambda>a b. t_createdAt b \<le> t_createdAt a) rows"

text \<open>
  \<^verbatim>\<open>db.Todo.findAndCountAll\<close> with these options. LIMIT and OFFSET are of PostgreSQL's
  type bigint: the database refuses a negative one and one beyond \<open>2^63 - 1\<close>, and the
  call throws (\<open>Inl\<close>). Otherwise the count is the number of rows the
  where clause selects, and the rows are the window of those rows in an order that
  \<^verbatim>\<open>ORDER BY "createdAt" DESC\<close> admits: SQL leaves the order of rows with equal keys to
  the database, so the call is a relation, with one result for each admissible order.
\<close>

inductive findAndCountAll ::
  "store \<Rightarrow> find_options \<Rightarrow> unit + nat \<times> todo_with_category list \<Rightarrow> bool" where
  refused:
    "fo_limit opts < 0 \<or> fo_offset opts < 0 \<or>
     bigint_max < fo_limit opts \<or> bigint_max < fo_offset opts \<Longrightarrow>
     findAndCountAll s opts (Inl ())"
| found:
    "0 \<le> fo_limit opts \<Longrightarrow> 0 \<le> fo_offset opts \<Longrightarrow>
     fo_limit opts \<le> bigint_max \<Longrightarrow> fo_offset opts \<le> bigint_max \<Longrightarrow>
     mset ordered = mset (filter (where_matches (fo_where opts)) (todos s)) \<Longrightarrow>
     createdAt_desc ordered \<Longrightarrow>
     findAndCountAll s opts
       (Inr (length ordered,
             map (include_category s)
               (take (nat (fo_limit opts)) (drop (nat (fo_offset opts)) ordered))))"

text \<open>
  A JavaScript number as far as \<^verbatim>\<open>Math.ceil(count / Number(limit))\<close> needs it: the quotient
  of a count by zero is \<^verbatim>\<open>Infinity\<close>, or \<^verbatim>\<open>NaN\<close> when the count is zero too. Counts and
  limits are taken as exact integers (doubles are, up to \<open>2^53\<close>).
\<close>

datatype jsnum = Finite int | Infinity | NaN

definition Math_ceil_div :: "nat \<Rightarrow> int \<Rightarrow> jsnum" where
  "Math_ceil_div cnt lmt =
     (if lmt = 0 then (if cnt = 0 then NaN else Infinity)
      else Finite \<lceil>real cnt / real_of_int lmt\<rceil>)"

record pagination =
  total :: nat
  current_page :: int
  per_page :: int
  total_pages :: jsnum

record todo_list =
  data :: "todo_with_category list"
  pagination :: pagination

definition getTodos_respond ::
  "query \<Rightarrow> unit + nat \<times> todo_with_category list \<Rightarrow> failure + todo_list" where
  "getTodos_respond q r =
     (case r of
        Inl _ \<Rightarrow> Inl (Failure 500 ''Error fetching todos'')
      | Inr (cnt, rows) \<Rightarrow>
          Inr \<lparr>data = rows,
               pagination =
                 \<lparr>total = cnt,
                  current_page = getTodos_page q,
                  per_page = getTodos_limit q,
                  total_pages = Math_ceil_div cnt (getTodos_limit q)\<rparr>\<rparr>)"

inductive getTodos :: "store \<Rightarrow> query \<Rightarrow> failure + todo_list \<Rightarrow> bool" where
  "getTodos_options q opts \<Longrightarrow> findAndCountAll s opts r \<Longrightarrow>
   getTodos s q (getTodos_respond q r)"

section \<open>Writes to the store\<close>

text \<open>
  The values a handler passes to \<^verbatim>\<open>db.Todo.create\<close> or \<^verbatim>\<open>todo.update\<close>. Only \<open>title\<close> can
  reach the store undefined (\<open>None\<close>): the handlers give every other key a value or null.
\<close>

record todo_values =
  v_title :: "string option"
  v_description :: "string option"
  v_category_id :: "int option"
  v_priority :: string
  v_due_date :: "nat option"
  v_completed :: bool

text \<open>
  Modelled from the spec: the foreign key of \<open>Todos.category_id\<close> on \<open>Categories.id\<close>. The
  schema is created by the migrations, which are not among the sources; the
  specification (data model invariants, persistence collaborator) and the repository's
  notes on the schema (\<^verbatim>\<open>category_id INTEGER REFERENCES Categories(id)\<close>) say that a Todo
  written with a non-null \<open>category_id\<close> must reference an existing Category. The store
  refuses any other write.
\<close>

definition references_category :: "store \<Rightarrow> int option \<Rightarrow> bool" where
  "references_category s cid =
     (case cid of None \<Rightarrow> True | Some i \<Rightarrow> findByPk_Category s i \<noteq> None)"

text \<open>
  \<^verbatim>\<open>db.Todo.create\<close>. It throws (\<open>None\<close>) when \<open>title\<close> is missing (\<^verbatim>\<open>allowNull: false\<close>):
  Sequelize's validation refuses the values before any INSERT, and the store is as it
  was. Otherwise the INSERT takes the next identifier of the sequence; the database
  refuses the row when the foreign key does, or when the identifier is taken
  (\<^verbatim>\<open>primaryKey: true\<close>), and the call throws, but the value taken from the sequence is
  not given back: the sequence has advanced also after a refused INSERT. An accepted
  row is stored with both timestamps set to the time of the call.
\<close>

definition Todo_create :: "nat \<Rightarrow> store \<Rightarrow> todo_values \<Rightarrow> todo option \<times> store" where
  "Todo_create now s v =
     (case v_title v of
        None \<Rightarrow> (None, s)
      | Some title \<Rightarrow>
          (let row =
             \<lparr>t_id = todo_seq s, t_title = title, t_description = v_description v,
              t_completed = v_completed v, t_priority = v_priority v,
              t_due_date = v_due_date v, t_category_id = v_category_id v,
              t_createdAt = now, t_updatedAt = now\<rparr>;
               s' = s\<lparr>todo_seq := todo_seq s + 1\<rparr>
           in if \<not> references_category s (v_category_id v) then (None, s')
              else if findByPk_Todo s (todo_seq s) \<noteq> None then (None, s')
              else (Some row, s'\<lparr>todos := todos s @ [row]\<rparr>)))"

text \<open>
  \<^verbatim>\<open>todo.update(values)\<close> on an instance: the row with the instance's identifier takes the
  values; \<open>updatedAt\<close> moves when a value changed. The identifier and \<open>createdAt\<close> stay.
  Only changed columns are written, so the foreign key is checked when \<open>category_id\<close>
  changes.
\<close>

definition with_values :: "todo \<Rightarrow> string \<Rightarrow> todo_values \<Rightarrow> todo" where
  "with_values t title v =
     t\<lparr>t_title := title, t_description := v_description v,
       t_completed := v_completed v, t_priority := v_priority v,
       t_due_date := v_due_date v, t_category_id := v_category_id v\<rparr>"

definition set_values :: "nat \<Rightarrow> todo \<Rightarrow> string \<Rightarrow> todo_values \<Rightarrow> todo" where
  "set_values now t title v =
     (let t' = with_values t title v
      in if t' = t then t else t'\<lparr>t_updatedAt := now\<rparr>)"

definition Todo_update :: "nat \<Rightarrow> store \<Rightarrow> todo \<Rightarrow> todo_values \<Rightarrow> store option" where
  "Todo_update now s t v =
     (case v_title v of
        None \<Rightarrow> None
      | Some title \<Rightarrow>
          if v_category_id v \<noteq> t_category_id t \<and> \<not> references_category s (v_category_id v)
          then None
          else
            Some (s\<lparr>todos :=
                      map (\<lambda>r. if t_id r = t_id t then set_values now t title v else r)
                        (todos s)\<rparr>))"

section \<open>The Todo handlers\<close>

text \<open>
  \<^verbatim>\<open>req.body\<close> of the Todo routes, typed as \<^verbatim>\<open>TodoAttributes\<close> types it: \<open>title\<close>, \<open>priority\<close>
  and \<open>completed\<close> are a value or left out (\<open>None\<close>); the nullable attributes can also be
  sent as null. A supplied \<open>due_date\<close> is a date, a non-empty string on the wire, so
  \<^verbatim>\<open>due_date || null\<close> keeps it. A handler answers with a failure or with the data of its
  JSON body, and returns the store; the handlers take the time of the call (\<open>now\<close>), which
  Sequelize writes to \<open>createdAt\<close> and \<open>updatedAt\<close>.
\<close>

record todo_body =
  b_title :: "string option"
  b_description :: "string field"
  b_category_id :: "int field"
  b_priority :: "string option"
  b_due_date :: "nat field"
  b_completed :: "bool option"

text \<open>A body value as the column it is stored in: undefined and null are both NULL.\<close>

definition column_of :: "'a field \<Rightarrow> 'a option" where
  "column_of f = (case f of Value x \<Rightarrow> Some x | _ \<Rightarrow> None)"

definition createTodo ::
  "nat \<Rightarrow> store \<Rightarrow> todo_body \<Rightarrow> (failure + todo_with_category option) \<times> store" where
  "createTodo now s b =
     (case Todo_create now s
             \<lparr>v_title = b_title b,
              v_description = column_of (b_description b),
              v_category_id = column_of (b_category_id b),
              v_priority =
                (case b_priority b of
                   None \<Rightarrow> ''medium''
                 | Some p \<Rightarrow> if truthy p then p else ''medium''),
              v_due_date = column_of (b_due_date b),
              v_completed = False\<rparr> of
        (None, s') \<Rightarrow> (Inl (Failure 400 ''Error creating todo''), s')
      | (Some todo, s') \<Rightarrow> (Inr (findByPk_Todo_included s' (t_id todo)), s'))"

text \<open>\<^verbatim>\<open>x !== undefined ? x : todo.x\<close>, for a key that cannot be null and for one that can.\<close>

definition merge_value :: "'a option \<Rightarrow> 'a \<Rightarrow> 'a" where
  "merge_value x old = (case x of None \<Rightarrow> old | Some y \<Rightarrow> y)"

definition merge_field :: "'a field \<Rightarrow> 'a option \<Rightarrow> 'a option" where
  "merge_field x old = (case x of Undefined \<Rightarrow> old | Null \<Rightarrow> None | Value y \<Rightarrow> Some y)"

text \<open>The object \<^verbatim>\<open>updateTodo\<close> passes to \<^verbatim>\<open>todo.update\<close>.\<close>

definition updateTodo_values :: "todo \<Rightarrow> todo_body \<Rightarrow> todo_values" where
  "updateTodo_values todo b =
     \<lparr>v_title = Some (merge_value (b_title b) (t_title todo)),
      v_description = merge_field (b_description b) (t_description todo),
      v_category_id = merge_field (b_category_id b) (t_category_id todo),
      v_priority = merge_value (b_priority b) (t_priority todo),
      v_due_date = merge_field (b_due_date b) (t_due_date todo),
      v_completed = merge_value (b_completed b) (t_completed todo)\<rparr>"

definition updateTodo ::
  "nat \<Rightarrow> store \<Rightarrow> int \<Rightarrow> todo_body \<Rightarrow> (failure + todo_with_category option) \<times> store" where
  "updateTodo now s i b =
     (case findByPk_Todo s i of
        None \<Rightarrow> (Inl (Failure 404 ''Todo not found''), s)
      | Some todo \<Rightarrow>
          (case Todo_update now s todo (updateTodo_values todo b) of
             None \<Rightarrow> (Inl (Failure 400 ''Error updating todo''), s)
           | Some s' \<Rightarrow> (Inr (findByPk_Todo_included s' i), s')))"

definition deleteTodo :: "store \<Rightarrow> int \<Rightarrow> (failure + unit) \<times> store" where
  "deleteTodo s i =
     (case findByPk_Todo s i of
        None \<Rightarrow> (Inl (Failure 404 ''Todo not found''), s)
      | Some todo \<Rightarrow> (Inr (), s\<lparr>todos := filter (\<lambda>r. t_id r \<noteq> t_id todo) (todos s)\<rparr>))"


section \<open>The Category handlers\<close>

text \<open>\<^verbatim>\<open>db.Category.findOne({ where: { name } })\<close>: string equality, case-sensitive.\<close>

definition findOne_Category_name :: "store \<Rightarrow> string \<Rightarrow> category option" where
  "findOne_Category_name s n = find (\<lambda>c. c_name c = n) (categories s)"

record category_body =
  cb_name :: "string option"
  cb_color :: "string option"

text \<open>\<^verbatim>\<open>x || d\<close> for an optional string: a missing or empty \<open>x\<close> gives \<open>d\<close>.\<close>

definition or_default :: "string option \<Rightarrow> string \<Rightarrow> string" where
  "or_default x d = (case x of None \<Rightarrow> d | Some y \<Rightarrow> if truthy y then y else d)"

text \<open>
  \<^verbatim>\<open>db.Category.create\<close>: the INSERT takes the next identifier of the sequence and is
  refused when that identifier is taken (\<^verbatim>\<open>primaryKey: true\<close>); the sequence has advanced
  either way.
\<close>

definition Category_create ::
  "nat \<Rightarrow> store \<Rightarrow> string \<Rightarrow> string \<Rightarrow> category option \<times> store" where
  "Category_create now s n col =
     (let row = \<lparr>c_id = category_seq s, c_name = n, c_color = col,
                 c_createdAt = now, c_updatedAt = now\<rparr>;
          s' = s\<lparr>category_seq := category_seq s + 1\<rparr>
      in if findByPk_Category s (category_seq s) \<noteq> None then (None, s')
         else (Some row, s'\<lparr>categories := categories s @ [row]\<rparr>))"

text \<open>
  \<^verbatim>\<open>createCategory\<close>. Sequelize refuses an undefined value in a where clause, so a body
  without \<open>name\<close> ends in the \<^verbatim>\<open>catch\<close>.
\<close>

definition createCategory ::
  "nat \<Rightarrow> store \<Rightarrow> category_body \<Rightarrow> (failure + category) \<times> store" where
  "createCategory now s b =
     (case cb_name b of
        None \<Rightarrow> (Inl (Failure 400 ''Error creating category''), s)
      | Some n \<Rightarrow>
          (case findOne_Category_name s n of
             Some existingCategory \<Rightarrow> (Inl (Failure 400 ''Category already exists''), s)
           | None \<Rightarrow>
               (case Category_create now s n (or_default (cb_color b) ''#1890ff'') of
                  (None, s') \<Rightarrow> (Inl (Failure 400 ''Error creating category''), s')
                | (Some cat, s') \<Rightarrow> (Inr cat, s'))))"

definition Category_update :: "nat \<Rightarrow> category \<Rightarrow> string \<Rightarrow> string \<Rightarrow> category" where
  "Category_update now c n col =
     (let c' = c\<lparr>c_name := n, c_color := col\<rparr>
      in if c' = c then c else c'\<lparr>c_updatedAt := now\<rparr>)"

definition updateCategory ::
  "nat \<Rightarrow> store \<Rightarrow> int \<Rightarrow> category_body \<Rightarrow> (failure + category) \<times> store" where
  "updateCategory now s i b =
     (case findByPk_Category s i of
        None \<Rightarrow> (Inl (Failure 404 ''Category not found''), s)
      | Some cat \<Rightarrow>
          if (case cb_name b of
                None \<Rightarrow> False
              | Some n \<Rightarrow> truthy n \<and> n \<noteq> c_name cat \<and> findOne_Category_name s n \<noteq> None)
          then (Inl (Failure 400 ''Category name already exists''), s)
          else
            (let cat' = Category_update now cat (or_default (cb_name b) (c_name cat))
                          (or_default (cb_color b) (c_color cat))
             in (Inr cat',
                 s\<lparr>categories :=
                     map (\<lambda>r. if c_id r = c_id cat then cat' else r) (categories s)\<rparr>)))"




section \<open>Properties of a store\<close>

text \<open>Every Todo's \<open>category_id\<close> is null or the identifier of a stored Category.\<close>

definition referential_integrity :: "store \<Rightarrow> bool" where
  "referential_integrity s =
     list_all (\<lambda>t. references_category s (t_category_id t)) (todos s)"


text \<open>
  The filter contract in the specification's words. A search string occurs in a text,
  case-insensitively, when its lower-case form is a contiguous part of the text's
  lower-case form. A Todo passes the filters when the search, if present and not empty,
  occurs in its title or in its description, and its \<open>category_id\<close>, \<open>priority\<close> and
  \<open>completed\<close> equal the supplied values (\<open>completed\<close> read as the boolean that is true
  for the string \<open>true\<close>).
\<close>

definition contains_ci :: "string \<Rightarrow> string \<Rightarrow> bool" where
  "contains_ci needle hay = sublist (map to_lower needle) (map to_lower hay)"

definition filter_matches_spec :: "query \<Rightarrow> todo \<Rightarrow> bool" where
  "filter_matches_spec q t =
     ((case q_search q of
         None \<Rightarrow> True
       | Some s \<Rightarrow>
           s = [] \<or> contains_ci s (t_title t) \<or>
           (case t_description t of None \<Rightarrow> False | Some d \<Rightarrow> contains_ci s d)) \<and>
      (case q_category q of None \<Rightarrow> True | Some c \<Rightarrow> t_category_id t = Some c) \<and>
      (case q_priority q of None \<Rightarrow> True | Some p \<Rightarrow> t_priority t = p) \<and>
      (case q_completed q of None \<Rightarrow> True | Some c \<Rightarrow> t_completed t = (c = ''true'')))"

text \<open>A string without the characters that have a meaning in a LIKE pattern.\<close>

definition literal :: "string \<Rightarrow> bool" where
  "literal p = (\<forall>c \<in> set p. c \<noteq> CHR ''%'' \<and> c \<noteq> CHR ''_'' \<and> c \<noteq> CHR 0x5C)"

section \<open>Example data\<close>

definition example_category :: category where
  "example_category =
     \<lparr>c_id = 1, c_name = ''Work'', c_color = ''#0000ff'', c_createdAt = 100, c_updatedAt = 100\<rparr>"

definition example_todo :: todo where
  "example_todo =
     \<lparr>t_id = 1, t_title = ''Ship report'', t_description = None, t_completed = False,
      t_priority = ''high'', t_due_date = None, t_category_id = Some 1,
      t_createdAt = 200, t_updatedAt = 200\<rparr>"

definition example_todo_done :: todo where
  "example_todo_done =
     \<lparr>t_id = 2, t_title = ''Call Bob'', t_description = Some ''about the report'',
      t_completed = True, t_priority = ''low'', t_due_date = None, t_category_id = None,
      t_createdAt = 250, t_updatedAt = 260\<rparr>"

definition example_store :: store where
  "example_store =
     \<lparr>todos = [example_todo, example_todo_done], categories = [example_category],
      todo_seq = 3, category_seq = 2\<rparr>"

definition example_body :: todo_body where
  "example_body =
     \<lparr>b_title = Some ''Buy milk'', b_description = Undefined, b_category_id = Null,
      b_priority = None, b_due_date = Undefined, b_completed = Some True\<rparr>"

definition example_created :: todo where
  "example_created =
     \<lparr>t_id = 3, t_title = ''Buy milk'', t_description = None, t_completed = False,
      t_priority = ''medium'', t_due_date = None, t_category_id = None,
      t_createdAt = 300, t_updatedAt = 300\<rparr>"

definition example_update :: todo_body where
  "example_update =
     \<lparr>b_title = None, b_description = Value ''by Friday'', b_category_id = Value 1,
      b_priority = Some ''low'', b_due_date = Undefined, b_completed = Some True\<rparr>"

definition example_updated :: todo where
  "example_updated =
     \<lparr>t_id = 1, t_title = ''Ship report'', t_description = Some ''by Friday'',
      t_completed = True, t_priority = ''low'', t_due_date = None, t_category_id = Some 1,
      t_createdAt = 200, t_updatedAt = 300\<rparr>"

definition example_category_home :: category where
  "example_category_home =
     \<lparr>c_id = 2, c_name = ''Home'', c_color = ''#00ff00'', c_createdAt = 150, c_updatedAt = 150\<rparr>"

definition example_store_two :: store where
  "example_store_two =
     \<lparr>todos = [example_todo, example_todo_done],
      categories = [example_category, example_category_home],
      todo_seq = 3, category_seq = 3\<rparr>"

definition example_store_three :: store where
  "example_store_three =
     \<lparr>todos = [example_todo, example_todo_done, example_created],
      categories = [example_category], todo_seq = 4, category_seq = 2\<rparr>"

definition example_query :: query where
  "example_query =
     \<lparr>q_page = Some 2, q_limit = Some 2, q_search = None, q_category = None,
      q_priority = None, q_completed = None\<rparr>"

definition example_page_two :: todo_list where
  "example_page_two =
     \<lparr>data = [\<lparr>tw_todo = example_todo,
               tw_category = Some \<lparr>cs_id = 1, cs_name = ''Work'', cs_color = ''#0000ff''\<rparr>\<rparr>],
      pagination = \<lparr>total = 3, current_page = 2, per_page = 2, total_pages = Finite 2\<rparr>\<rparr>"


definition tie_first :: todo where
  "tie_first =
     \<lparr>t_id = 1, t_title = ''Buy milk'', t_description = None, t_completed = False,
      t_priority = ''medium'', t_due_date = None, t_category_id = None,
      t_createdAt = 300, t_updatedAt = 300\<rparr>"



definition default_query :: query where
  "default_query =
     \<lparr>q_page = None, q_limit = None, q_search = None, q_category = None,
      q_priority = None, q_completed = None\<rparr>"



section \<open>Facts about the store writes\<close>

lemma findByPk_Todo_id: "findByPk_Todo s i = Some t \<Longrightarrow> t_id t = i"
  by (auto simp: findByPk_Todo_def find_Some_iff)

lemma set_values_cases:
  "set_values now t title v = with_values t title v \<or>
   set_values now t title v = (with_values t title v)\<lparr>t_updatedAt := now\<rparr>"
  by (cases "with_values t title v = t") (simp_all add: set_values_def)

lemma set_values_fields:
  "t_id (set_values now t title v) = t_id t"
  "t_title (set_values now t title v) = title"
  "t_description (set_values now t title v) = v_description v"
  "t_completed (set_values now t title v) = v_completed v"
  "t_priority (set_values now t title v) = v_priority v"
  "t_due_date (set_values now t title v) = v_due_date v"
  "t_category_id (set_values now t title v) = v_category_id v"
  "t_createdAt (set_values now t title v) = t_createdAt t"
  using set_values_cases[of now t title v] by (auto simp: with_values_def)

lemma find_map_replace:
  "find (\<lambda>r. t_id r = i) rows = Some t \<Longrightarrow> t_id t' = i \<Longrightarrow>
   find (\<lambda>r. t_id r = i) (map (\<lambda>r. if t_id r = i then t' else r) rows) = Some t'"
  by (induction rows) (auto split: if_splits)


lemma Todo_update_findByPk:
  assumes "findByPk_Todo s i = Some t" and "Todo_update now s t v = Some s'"
  shows "\<exists>title. v_title v = Some title \<and> findByPk_Todo s' i = Some (set_values now t title v)"
proof -
  have i: "t_id t = i" using assms(1) by (rule findByPk_Todo_id)
  from assms(2) obtain title where ti: "v_title v = Some title"
    and s': "s' = s\<lparr>todos := map (\<lambda>r. if t_id r = t_id t then set_values now t title v else r) (todos s)\<rparr>"
    by (auto simp: Todo_update_def split: option.splits if_splits)
  have "findByPk_Todo s' i = Some (set_values now t title v)"
    using assms(1) i unfolding s' findByPk_Todo_def
    by (simp add: find_map_replace set_values_fields)
  with ti show ?thesis by blast
qed


lemma Todo_update_categories:
  "Todo_update now s t v = Some s' \<Longrightarrow> categories s' = categories s"
  by (auto simp: Todo_update_def split: option.splits if_splits)


lemma find_append_None:
  "find P xs = None \<Longrightarrow> find P (xs @ ys) = find P ys"
  by (induction xs) (auto split: if_splits)

lemma Todo_create_Some:
  assumes "Todo_create now s v = (Some row, s')"
  shows "todos s' = todos s @ [row]" and "categories s' = categories s"
    and "t_id row = todo_seq s" and "t_completed row = v_completed v"
    and "t_category_id row = v_category_id v"
    and "references_category s (v_category_id v)"
    and "findByPk_Todo s' (t_id row) = Some row"
  using assms
  by (auto simp: Todo_create_def Let_def findByPk_Todo_def find_append_None
           split: option.splits if_splits)

lemma Todo_create_None:
  assumes "Todo_create now s v = (None, s')"
  shows "todos s' = todos s" and "categories s' = categories s"
  using assms
  by (auto simp: Todo_create_def Let_def split: option.splits if_splits)

lemma createTodo_Inr:
  assumes "createTodo now s b = (Inr r, s')"
  shows "\<exists>t. todos s' = todos s @ [t] \<and> categories s' = categories s \<and>
             t_completed t = False \<and> t_category_id t = column_of (b_category_id b) \<and>
             references_category s (column_of (b_category_id b)) \<and>
             findByPk_Todo s' (t_id t) = Some t \<and>
             r = Some (include_category s' t)"
proof -
  let ?v = "\<lparr>v_title = b_title b,
              v_description = column_of (b_description b),
              v_category_id = column_of (b_category_id b),
              v_priority =
                (case b_priority b of
                   None \<Rightarrow> ''medium''
                 | Some p \<Rightarrow> if truthy p then p else ''medium''),
              v_due_date = column_of (b_due_date b),
              v_completed = False\<rparr>"
  from assms obtain row where c: "Todo_create now s ?v = (Some row, s')"
    and r: "r = findByPk_Todo_included s' (t_id row)"
    by (auto simp: createTodo_def split: option.splits prod.splits)
  from Todo_create_Some[OF c] r show ?thesis
    by (auto simp: findByPk_Todo_included_def)
qed

lemma createTodo_Inl:
  assumes "createTodo now s b = (Inl e, s')"
  shows "todos s' = todos s" and "categories s' = categories s"
  using assms
  by (auto simp: createTodo_def split: option.splits prod.splits dest: Todo_create_None)

lemma createTodo_example:
  "createTodo 300 example_store example_body =
     (Inr (Some \<lparr>tw_todo = example_created, tw_category = None\<rparr>),
      example_store\<lparr>todos := [example_todo, example_todo_done, example_created],
                     todo_seq := 3 + 1\<rparr>)"
  by (simp add: createTodo_def Todo_create_def example_store_def example_body_def
        example_todo_def example_todo_done_def example_created_def column_of_def
        references_category_def findByPk_Todo_def findByPk_Todo_included_def
        include_category_def Let_def)





lemma updateTodo_example:
  "updateTodo 300 example_store 1 example_update =
     (Inr (Some \<lparr>tw_todo = example_updated,
                 tw_category = Some \<lparr>cs_id = 1, cs_name = ''Work'', cs_color = ''#0000ff''\<rparr>\<rparr>),
      example_store\<lparr>todos := [example_updated, example_todo_done]\<rparr>)"
  by (simp add: updateTodo_def updateTodo_values_def Todo_update_def set_values_def
        with_values_def merge_value_def merge_field_def example_store_def example_update_def
        example_todo_def example_todo_done_def example_updated_def example_category_def
        references_category_def findByPk_Todo_def findByPk_Category_def
        findByPk_Todo_included_def include_category_def Let_def)

lemma findByPk_Todo_mem: "findByPk_Todo s i = Some t \<Longrightarrow> t \<in> set (todos s)"
  by (auto simp: findByPk_Todo_def find_Some_iff)

lemma references_category_cong:
  "categories s' = categories s \<Longrightarrow> references_category s' x = references_category s x"
  by (cases x) (simp_all add: references_category_def findByPk_Category_def)

lemma Todo_update_integrity:
  assumes ri: "referential_integrity s" and t: "t \<in> set (todos s)"
    and u: "Todo_update now s t v = Some s'"
  shows "referential_integrity s'"
proof -
  from u obtain title where ti: "v_title v = Some title"
    and ok: "v_category_id v = t_category_id t \<or> references_category s (v_category_id v)"
    and s': "s' = s\<lparr>todos := map (\<lambda>r. if t_id r = t_id t then set_values now t title v else r) (todos s)\<rparr>"
    by (auto simp: Todo_update_def split: option.splits if_splits)
  have c: "categories s' = categories s" by (simp add: s')
  have "references_category s (t_category_id t)"
    using ri t by (simp add: referential_integrity_def list_all_iff)
  with ok have new: "references_category s (t_category_id (set_values now t title v))"
    by (auto simp: set_values_fields)
  have "\<forall>r \<in> set (todos s'). references_category s (t_category_id r)"
    using ri new by (auto simp: s' referential_integrity_def list_all_iff)
  then show ?thesis
    by (simp add: referential_integrity_def list_all_iff references_category_cong[OF c])
qed

lemma updateTodo_integrity:
  assumes "referential_integrity s"
  shows "referential_integrity (snd (updateTodo now s i b))"
proof (cases "findByPk_Todo s i")
  case None
  then show ?thesis using assms by (simp add: updateTodo_def)
next
  case (Some t)
  show ?thesis
  proof (cases "Todo_update now s t (updateTodo_values t b)")
    case None
    then show ?thesis using assms Some by (simp add: updateTodo_def)
  next
    case u: (Some s')
    from Todo_update_integrity[OF assms findByPk_Todo_mem[OF Some] u]
    show ?thesis using Some u by (simp add: updateTodo_def)
  qed
qed

lemma createTodo_integrity:
  assumes "referential_integrity s"
  shows "referential_integrity (snd (createTodo now s b))"
proof (cases "createTodo now s b")
  case (Pair r s')
  show ?thesis
  proof (cases r)
    case (Inl e)
    with Pair createTodo_Inl[of now s b e s'] have
      e: "todos s' = todos s" "categories s' = categories s"
      by simp_all
    then have "referential_integrity s'"
      using assms
      by (simp add: referential_integrity_def list_all_iff references_category_cong[OF e(2)])
    with Pair show ?thesis by simp
  next
    case (Inr x)
    from createTodo_Inr[of now s b x s'] Pair Inr obtain t where
      t: "todos s' = todos s @ [t]" "categories s' = categories s"
      "t_category_id t = column_of (b_category_id b)"
      "references_category s (column_of (b_category_id b))"
      by auto
    then have "referential_integrity s'"
      using assms
      by (simp add: referential_integrity_def list_all_iff references_category_cong[OF t(2)])
    with Pair show ?thesis by simp
  qed
qed

lemma updateTodo_Inr:
  assumes "updateTodo now s i b = (Inr r, s')"
  shows "\<exists>t. findByPk_Todo s i = Some t \<and> Todo_update now s t (updateTodo_values t b) = Some s' \<and>
     r = findByPk_Todo_included s' i"
  using assms by (auto simp: updateTodo_def split: option.splits)

section \<open>Facts about LIKE patterns\<close>

lemma like_match_percent_end: "like_match ''%'' s"
  by (induction s) simp_all

lemma like_match_literal_prefix:
  "literal p \<Longrightarrow> like_match (p @ ''%'') s = prefix p s"
proof (induction p arbitrary: s)
  case Nil
  then show ?case using like_match_percent_end by simp
next
  case (Cons c p)
  then have "literal p" and c: "c \<noteq> CHR ''%''" "c \<noteq> CHR ''_''" "c \<noteq> CHR 0x5C"
    by (simp_all add: literal_def)
  with Cons.IH show ?case by (cases s) auto
qed

lemma like_match_percent_suffix:
  "like_match (CHR ''%'' # q) s = (\<exists>s'. suffix s' s \<and> like_match q s')"
proof (induction s)
  case Nil
  then show ?case by simp
next
  case (Cons x xs)
  have "like_match (CHR ''%'' # q) (x # xs) =
      (like_match q (x # xs) \<or> like_match (CHR ''%'' # q) xs)"
    by simp
  also have "\<dots> = (like_match q (x # xs) \<or> (\<exists>s'. suffix s' xs \<and> like_match q s'))"
    by (simp only: Cons.IH)
  also have "\<dots> = (\<exists>s'. suffix s' (x # xs) \<and> like_match q s')"
    by (auto simp: suffix_Cons)
  finally show ?case .
qed

lemma like_match_contains:
  assumes "literal p"
  shows "like_match (''%'' @ p @ ''%'') s = sublist p s"
proof -
  have "like_match (''%'' @ p @ ''%'') s = (\<exists>s'. suffix s' s \<and> prefix p s')"
    using like_match_percent_suffix[of "p @ ''%''" s] like_match_literal_prefix[OF assms]
    by simp
  then show ?thesis by (simp add: sublist_altdef')
qed

lemma to_lower_meta:
  "to_lower c = CHR ''%'' \<longleftrightarrow> c = CHR ''%''"
  "to_lower c = CHR ''_'' \<longleftrightarrow> c = CHR ''_''"
  "to_lower c = CHR 0x5C \<longleftrightarrow> c = CHR 0x5C"
  by (auto simp: to_lower_def char_of_eq_iff take_bit_eq_mod)

lemma literal_to_lower: "literal s \<Longrightarrow> literal (map to_lower s)"
  by (auto simp: literal_def to_lower_meta)

lemma iLike_contains:
  assumes "literal s"
  shows "iLike x (''%'' @ s @ ''%'') = contains_ci s x"
proof -
  have "map to_lower (''%'' @ s @ ''%'') = ''%'' @ map to_lower s @ ''%''"
    by (simp add: to_lower_def)
  then show ?thesis
    using like_match_contains[OF literal_to_lower[OF assms], of "map to_lower x"]
    by (simp add: iLike_def contains_ci_def)
qed

lemma where_matches_spec:
  assumes "\<forall>s. q_search q = Some s \<longrightarrow> literal s" and "q_priority q \<noteq> Some []"
  shows "where_matches (getTodos_where q) t = filter_matches_spec q t"
proof -
  have s: "(case w_or_iLike (getTodos_where q) of
         None \<Rightarrow> True
       | Some pat \<Rightarrow>
           iLike (t_title t) pat \<or>
           (case t_description t of None \<Rightarrow> False | Some d \<Rightarrow> iLike d pat)) =
     (case q_search q of
         None \<Rightarrow> True
       | Some s \<Rightarrow>
           s = [] \<or> contains_ci s (t_title t) \<or>
           (case t_description t of None \<Rightarrow> False | Some d \<Rightarrow> contains_ci s d))"
  proof (cases "q_search q")
    case None
    then show ?thesis by (simp add: getTodos_where_def truthy_def)
  next
    case (Some s)
    with assms(1) have "literal s" by simp
    from iLike_contains[OF this] Some show ?thesis
      by (cases "t_description t") (simp_all add: getTodos_where_def truthy_def)
  qed
  have c: "(case w_category_id (getTodos_where q) of None \<Rightarrow> True
              | Some c \<Rightarrow> t_category_id t = Some c) =
      (case q_category q of None \<Rightarrow> True | Some c \<Rightarrow> t_category_id t = Some c)"
    by (cases "q_category q") (simp_all add: getTodos_where_def Let_def)
  have p: "(case w_priority (getTodos_where q) of None \<Rightarrow> True | Some p \<Rightarrow> t_priority t = p) =
      (case q_priority q of None \<Rightarrow> True | Some p \<Rightarrow> t_priority t = p)"
    using assms(2) by (cases "q_priority q") (simp_all add: getTodos_where_def Let_def truthy_def)
  have d: "(case w_completed (getTodos_where q) of None \<Rightarrow> True | Some b \<Rightarrow> t_completed t = b) =
      (case q_completed q of None \<Rightarrow> True | Some c \<Rightarrow> t_completed t = (c = ''true''))"
    by (cases "q_completed q") (simp_all add: getTodos_where_def Let_def)
  show ?thesis
    unfolding where_matches_def filter_matches_spec_def s c p d ..
qed

lemma to_lower_simps:
  "map to_lower ''%_%'' = ''%_%''" "map to_lower ''_'' = ''_''"
  "map to_lower ''Buy milk'' = ''buy milk''"
  by (simp_all add: to_lower_def char_of_eq_iff)

section \<open>Facts about the list operation\<close>



lemma findAndCountAll_Inr:
  assumes "findAndCountAll s opts (Inr (cnt, rows))"
  shows "\<exists>ordered. 0 \<le> fo_limit opts \<and> 0 \<le> fo_offset opts \<and>
           fo_limit opts \<le> bigint_max \<and> fo_offset opts \<le> bigint_max \<and>
           mset ordered = mset (filter (where_matches (fo_where opts)) (todos s)) \<and>
           createdAt_desc ordered \<and> cnt = length ordered \<and>
           rows = map (include_category s)
                    (take (nat (fo_limit opts)) (drop (nat (fo_offset opts)) ordered))"
  using assms by (cases rule: findAndCountAll.cases) auto


lemma getTodos_Inr:
  assumes "getTodos s q (Inr r)"
  shows "\<exists>opts ordered. getTodos_options q opts \<and>
           0 \<le> fo_limit opts \<and> 0 \<le> fo_offset opts \<and>
           mset ordered = mset (filter (where_matches (getTodos_where q)) (todos s)) \<and>
           createdAt_desc ordered \<and>
           data r = map (include_category s)
                    (take (nat (fo_limit opts)) (drop (nat (fo_offset opts)) ordered)) \<and>
           pagination r =
             \<lparr>total = length ordered, current_page = getTodos_page q,
              per_page = getTodos_limit q,
              total_pages = Math_ceil_div (length ordered) (getTodos_limit q)\<rparr>"
proof -
  from assms obtain opts x where o: "getTodos_options q opts"
    and f: "findAndCountAll s opts x"
    and r: "Inr r = getTodos_respond q x"
    by (cases rule: getTodos.cases) auto
  from r obtain cnt rows where x: "x = Inr (cnt, rows)"
    by (cases x) (auto simp: getTodos_respond_def)
  have w: "fo_where opts = getTodos_where q"
    using o by (simp add: getTodos_options_def)
  from findAndCountAll_Inr[OF f[unfolded x]] obtain ordered where
    "0 \<le> fo_limit opts" "0 \<le> fo_offset opts"
    "mset ordered = mset (filter (where_matches (getTodos_where q)) (todos s))"
    "createdAt_desc ordered" "cnt = length ordered"
    "rows = map (include_category s)
              (take (nat (fo_limit opts)) (drop (nat (fo_offset opts)) ordered))"
    unfolding w by blast
  with o r x show ?thesis
    by (auto simp: getTodos_respond_def)
qed



lemma safe_integer_bigint: "safe_integer n \<Longrightarrow> n \<le> bigint_max"
  by (simp add: safe_integer_def bigint_max_def)


lemma getTodos_options_safe:
  assumes "safe_integer (getTodos_limit q)"
    and "safe_integer ((getTodos_page q - 1) * getTodos_limit q)"
  shows "getTodos_options q opts \<longleftrightarrow>
           fo_where opts = getTodos_where q \<and> fo_limit opts = getTodos_limit q \<and>
           fo_offset opts = (getTodos_page q - 1) * getTodos_limit q"
  using assms
  by (auto simp: getTodos_options_def getTodos_offset_def number_text_def double_result_def
        safe_integer_def)

lemma Math_ceil_div_code:
  "Math_ceil_div c l =
     (if l = 0 then (if c = 0 then NaN else Infinity) else Finite (- (- int c div l)))"
proof -
  have "\<lceil>real c / real_of_int l\<rceil> = - (- int c div l)"
    using ceiling_divide_eq_div[of "int c" l, where ?'a = real] by simp
  then show ?thesis by (simp add: Math_ceil_div_def)
qed

lemma getTodos_safeI:
  assumes "safe_integer (getTodos_limit q)"
    and "safe_integer ((getTodos_page q - 1) * getTodos_limit q)"
    and "0 \<le> getTodos_limit q" and "0 \<le> (getTodos_page q - 1) * getTodos_limit q"
    and "mset ordered = mset (filter (where_matches (getTodos_where q)) (todos s))"
    and "createdAt_desc ordered"
  shows "getTodos s q
     (Inr \<lparr>data = map (include_category s)
                    (take (nat (getTodos_limit q))
                       (drop (nat ((getTodos_page q - 1) * getTodos_limit q)) ordered)),
           pagination =
             \<lparr>total = length ordered, current_page = getTodos_page q,
              per_page = getTodos_limit q,
              total_pages = Math_ceil_div (length ordered) (getTodos_limit q)\<rparr>\<rparr>)"
proof -
  let ?opts = "\<lparr>fo_where = getTodos_where q, fo_limit = getTodos_limit q,
                fo_offset = (getTodos_page q - 1) * getTodos_limit q\<rparr>"
  have o: "getTodos_options q ?opts"
    by (simp add: getTodos_options_safe[OF assms(1,2)])
  have "findAndCountAll s ?opts
     (Inr (length ordered,
           map (include_category s)
             (take (nat (fo_limit ?opts)) (drop (nat (fo_offset ?opts)) ordered))))"
    using assms safe_integer_bigint[OF assms(1)] safe_integer_bigint[OF assms(2)]
    by (intro findAndCountAll.found) simp_all
  from getTodos.intros[OF o this] show ?thesis
    by (simp add: getTodos_respond_def)
qed

lemma example_where: "where_matches (getTodos_where (example_query\<lparr>q_page := p\<rparr>)) t"
  by (simp add: where_matches_def getTodos_where_def example_query_def truthy_def)

lemma example_getTodos_page:
  assumes "0 < p" and "p \<le> 1000"
  shows "getTodos example_store_three (example_query\<lparr>q_page := Some p\<rparr>)
     (Inr \<lparr>data = map (include_category example_store_three)
                    (take 2 (drop (nat ((p - 1) * 2))
                       [example_created, example_todo_done, example_todo])),
           pagination = \<lparr>total = 3, current_page = p, per_page = 2, total_pages = Finite 2\<rparr>\<rparr>)"
proof -
  let ?q = "example_query\<lparr>q_page := Some p\<rparr>"
  let ?ordered = "[example_created, example_todo_done, example_todo]"
  have o: "getTodos_limit ?q = 2" "getTodos_page ?q = p"
    by (simp_all add: getTodos_page_def getTodos_limit_def example_query_def)
  have f: "filter (where_matches (getTodos_where ?q)) (todos example_store_three) =
      [example_todo, example_todo_done, example_created]"
    using example_where[of "Some p"] by (simp add: example_store_three_def)
  have "getTodos example_store_three ?q
     (Inr \<lparr>data = map (include_category example_store_three)
                    (take (nat (getTodos_limit ?q))
                       (drop (nat ((getTodos_page ?q - 1) * getTodos_limit ?q)) ?ordered)),
           pagination =
             \<lparr>total = length ?ordered, current_page = getTodos_page ?q,
              per_page = getTodos_limit ?q,
              total_pages = Math_ceil_div (length ?ordered) (getTodos_limit ?q)\<rparr>\<rparr>)"
  proof (rule getTodos_safeI)
    show "safe_integer (getTodos_limit ?q)" by (simp add: o safe_integer_def)
    show "safe_integer ((getTodos_page ?q - 1) * getTodos_limit ?q)"
      using assms by (simp add: o safe_integer_def)
    show "0 \<le> getTodos_limit ?q" by (simp add: o)
    show "0 \<le> (getTodos_page ?q - 1) * getTodos_limit ?q" using assms by (simp add: o)
    show "mset ?ordered =
        mset (filter (where_matches (getTodos_where ?q)) (todos example_store_three))"
      by (simp add: f)
    show "createdAt_desc ?ordered"
      by (simp add: createdAt_desc_def example_created_def example_todo_done_def
            example_todo_def)
  qed
  then show ?thesis
    by (simp add: o Math_ceil_div_code numeral_3_eq_3)
qed

lemma example_getTodos: "getTodos example_store_three example_query (Inr example_page_two)"
proof -
  have "example_query\<lparr>q_page := Some 2\<rparr> = example_query"
    by (simp add: example_query_def)
  with example_getTodos_page[of 2] show ?thesis
    by (simp add: example_page_two_def include_category_def findByPk_Category_def
          example_store_three_def example_todo_def example_category_def)
qed


lemma Math_ceil_div_pos:
  assumes "0 < l"
  shows "\<exists>n. Math_ceil_div c l = Finite n \<and> (n - 1) * l < int c \<and> int c \<le> n * l"
proof -
  let ?x = "real c / real_of_int l"
  let ?n = "\<lceil>?x\<rceil>"
  have lr: "0 < real_of_int l" using assms by simp
  have lo: "real_of_int ?n - 1 < ?x" and hi: "?x \<le> real_of_int ?n"
    by linarith+
  have "(real_of_int ?n - 1) * real_of_int l < real c"
    using lo by (simp only: pos_less_divide_eq[OF lr])
  moreover have "real c \<le> real_of_int ?n * real_of_int l"
    using hi by (simp only: pos_divide_le_eq[OF lr])
  ultimately have "real_of_int ((?n - 1) * l) < real_of_int (int c)"
    "real_of_int (int c) \<le> real_of_int (?n * l)"
    by simp_all
  then have "(?n - 1) * l < int c" "int c \<le> ?n * l"
    by (simp_all only: of_int_less_iff of_int_le_iff)
  then show ?thesis using assms by (simp add: Math_ceil_div_def)
qed

lemma example_getTodos_none:
  "getTodos example_store_three (example_query\<lparr>q_priority := Some ''urgent''\<rparr>)
     (Inr \<lparr>data = [],
           pagination = \<lparr>total = 0, current_page = 2, per_page = 2, total_pages = Finite 0\<rparr>\<rparr>)"
proof -
  let ?q = "example_query\<lparr>q_priority := Some ''urgent''\<rparr>"
  have o: "getTodos_limit ?q = 2" "getTodos_page ?q = 2"
    by (simp_all add: getTodos_page_def getTodos_limit_def example_query_def)
  have f: "filter (where_matches (getTodos_where ?q)) (todos example_store_three) = []"
    by (simp add: getTodos_where_def where_matches_def truthy_def
          example_query_def example_store_three_def example_todo_def example_todo_done_def
          example_created_def)
  have "getTodos example_store_three ?q
     (Inr \<lparr>data = map (include_category example_store_three)
                    (take (nat (getTodos_limit ?q))
                       (drop (nat ((getTodos_page ?q - 1) * getTodos_limit ?q)) [])),
           pagination =
             \<lparr>total = length ([] :: todo list), current_page = getTodos_page ?q,
              per_page = getTodos_limit ?q,
              total_pages = Math_ceil_div (length ([] :: todo list)) (getTodos_limit ?q)\<rparr>\<rparr>)"
  proof (rule getTodos_safeI)
    show "safe_integer (getTodos_limit ?q)" by (simp add: o safe_integer_def)
    show "safe_integer ((getTodos_page ?q - 1) * getTodos_limit ?q)"
      by (simp add: o safe_integer_def)
    show "0 \<le> getTodos_limit ?q" by (simp add: o)
    show "0 \<le> (getTodos_page ?q - 1) * getTodos_limit ?q" by (simp add: o)
    show "mset [] =
        mset (filter (where_matches (getTodos_where ?q)) (todos example_store_three))"
      by (simp add: f)
    show "createdAt_desc []" by (simp add: createdAt_desc_def)
  qed
  then show ?thesis
    by (simp add: o Math_ceil_div_code)
qed







section \<open>Facts about the Category handlers\<close>


lemma findByPk_Category_id: "findByPk_Category s i = Some c \<Longrightarrow> c_id c = i"
  by (auto simp: findByPk_Category_def find_Some_iff)

lemma findByPk_Category_mem: "findByPk_Category s i = Some c \<Longrightarrow> c \<in> set (categories s)"
  by (auto simp: findByPk_Category_def find_Some_iff)







lemma findOne_Category_name_None_iff:
  "findOne_Category_name s n = None \<longleftrightarrow> (\<forall>c \<in> set (categories s). c_name c \<noteq> n)"
  by (auto simp: findOne_Category_name_def find_None_iff)

lemma findOne_Category_name_collision:
  "c \<in> set (categories s) \<Longrightarrow> c_name c = n \<Longrightarrow> \<exists>e. findOne_Category_name s n = Some e"
  using findOne_Category_name_None_iff[of s n] by (cases "findOne_Category_name s n") auto

lemma Category_update_fields:
  "c_id (Category_update now c n col) = c_id c"
  "c_name (Category_update now c n col) = n"
  "c_color (Category_update now c n col) = col"
  "c_createdAt (Category_update now c n col) = c_createdAt c"
proof -
  have "Category_update now c n col = c\<lparr>c_name := n, c_color := col\<rparr> \<or>
        Category_update now c n col = c\<lparr>c_name := n, c_color := col, c_updatedAt := now\<rparr>"
    by (cases "c\<lparr>c_name := n, c_color := col\<rparr> = c") (simp_all add: Category_update_def)
  then show "c_id (Category_update now c n col) = c_id c"
    "c_name (Category_update now c n col) = n"
    "c_color (Category_update now c n col) = col"
    "c_createdAt (Category_update now c n col) = c_createdAt c"
    by auto
qed

lemma find_map_replace_category:
  "find (\<lambda>r. c_id r = i) rows = Some c \<Longrightarrow> c_id c' = i \<Longrightarrow>
   find (\<lambda>r. c_id r = i) (map (\<lambda>r. if c_id r = i then c' else r) rows) = Some c'"
  by (induction rows) (auto split: if_splits)

lemma updateCategory_success:
  assumes c: "findByPk_Category s i = Some cat"
    and ok: "\<forall>n. cb_name b = Some n \<and> n \<noteq> [] \<and> n \<noteq> c_name cat \<longrightarrow>
               (\<forall>c \<in> set (categories s). c_name c \<noteq> n)"
  shows "\<exists>cat' s'. updateCategory now s i b = (Inr cat', s') \<and>
           findByPk_Category s' i = Some cat' \<and>
           c_name cat' = or_default (cb_name b) (c_name cat) \<and>
           c_color cat' = or_default (cb_color b) (c_color cat) \<and>
           c_id cat' = i \<and> todos s' = todos s"
proof -
  have i: "c_id cat = i" using c by (rule findByPk_Category_id)
  have no: "\<not> (case cb_name b of
                None \<Rightarrow> False
              | Some n \<Rightarrow> truthy n \<and> n \<noteq> c_name cat \<and> findOne_Category_name s n \<noteq> None)"
    using ok by (auto simp: truthy_def findOne_Category_name_None_iff split: option.splits)
  let ?c = "Category_update now cat (or_default (cb_name b) (c_name cat))
              (or_default (cb_color b) (c_color cat))"
  have u: "updateCategory now s i b =
      (Inr ?c, s\<lparr>categories := map (\<lambda>r. if c_id r = c_id cat then ?c else r) (categories s)\<rparr>)"
    using c no by (simp add: updateCategory_def Let_def)
  have f: "findByPk_Category
      (s\<lparr>categories := map (\<lambda>r. if c_id r = c_id cat then ?c else r) (categories s)\<rparr>) i = Some ?c"
    using c i by (simp add: findByPk_Category_def find_map_replace_category Category_update_fields)
  from u f i show ?thesis by (simp add: Category_update_fields)
qed

section \<open>The filter builder\<close>

text \<open>
  C1. The handler puts the search string into the LIKE pattern as it is, so the
  characters \<open>%\<close>, \<open>_\<close> and backslash in it act as wildcards and escapes, not as themselves.
  With \<open>search = _\<close> the pattern is \<open>%_%\<close>, which matches every non-empty text: the Todo
  titled \<open>Buy milk\<close>, without description, is matched although no underscore occurs in
  it, so the predicate of the list operation differs from the stated one there.
  (\<open>where_matches_spec\<close> above shows that the two agree for every search string free of
  these three characters, with a priority filter that is not the empty string.)
\<close>

theorem getTodos_where_wildcard:
  "t_title tie_first = ''Buy milk'' \<and> t_description tie_first = None \<and>
   where_matches (getTodos_where (default_query\<lparr>q_search := Some ''_''\<rparr>)) tie_first \<and>
   \<not> contains_ci ''_'' ''Buy milk'' \<and>
   \<not> filter_matches_spec (default_query\<lparr>q_search := Some ''_''\<rparr>) tie_first"
proof -
  have t: "t_title tie_first = ''Buy milk''" "t_description tie_first = None"
    by (simp_all add: tie_first_def)
  have w: "getTodos_where (default_query\<lparr>q_search := Some ''_''\<rparr>) =
      \<lparr>w_or_iLike = Some ''%_%'', w_category_id = None, w_priority = None, w_completed = None\<rparr>"
    by (simp add: getTodos_where_def default_query_def truthy_def)
  have l: "iLike ''Buy milk'' ''%_%''"
    unfolding iLike_def to_lower_simps by simp
  have n: "\<not> contains_ci ''_'' ''Buy milk''"
    unfolding contains_ci_def to_lower_simps by (simp add: sublist_Cons_right)
  have m: "where_matches (getTodos_where (default_query\<lparr>q_search := Some ''_''\<rparr>)) tie_first"
    unfolding w by (simp add: where_matches_def t l)
  have f: "\<not> filter_matches_spec (default_query\<lparr>q_search := Some ''_''\<rparr>) tie_first"
    using n by (simp add: filter_matches_spec_def default_query_def t)
  from t m n f show ?thesis by simp
qed

section \<open>The pager\<close>




section \<open>Pagination metadata\<close>

text \<open>
  C3. For a successful response to a request whose \<open>limit\<close>, when supplied, is a positive
  integer: \<open>total\<close> is the number of Todos the where clause selects, whatever the window;
  \<open>per_page\<close> is the limit; \<open>total_pages\<close> is the ceiling of \<open>total / per_page\<close>, that is the
  integer \<open>n\<close> with \<open>(n - 1) * per_page < total \<le> n * per_page\<close>; and when \<open>total\<close> is 0,
  \<open>total_pages\<close> is 0 and there are no items. (With \<open>limit = 0\<close> the quotient is not a
  number, see \<open>Math_ceil_div\<close>; a negative limit is refused by the database.)
\<close>

theorem getTodos_total_pages:
  assumes "getTodos s q (Inr r)" and "\<forall>l. q_limit q = Some l \<longrightarrow> 0 < l"
  shows "total (pagination r) =
           length (filter (where_matches (getTodos_where q)) (todos s)) \<and>
         per_page (pagination r) = (case q_limit q of None \<Rightarrow> 10 | Some l \<Rightarrow> l) \<and>
         total_pages (pagination r) =
           Finite \<lceil>real (total (pagination r)) / real_of_int (per_page (pagination r))\<rceil> \<and>
         (\<exists>n. total_pages (pagination r) = Finite n \<and>
              (n - 1) * per_page (pagination r) < int (total (pagination r)) \<and>
              int (total (pagination r)) \<le> n * per_page (pagination r)) \<and>
         (total (pagination r) = 0 \<longrightarrow>
            total_pages (pagination r) = Finite 0 \<and> data r = [])"
proof -
  from getTodos_Inr[OF assms(1)] obtain opts :: find_options and ordered where
    m: "mset ordered = mset (filter (where_matches (getTodos_where q)) (todos s))"
    and d: "data r = map (include_category s)
                  (take (nat (fo_limit opts)) (drop (nat (fo_offset opts)) ordered))"
    and pg: "pagination r =
             \<lparr>total = length ordered, current_page = getTodos_page q,
              per_page = getTodos_limit q,
              total_pages = Math_ceil_div (length ordered) (getTodos_limit q)\<rparr>"
    by auto
  have l: "0 < getTodos_limit q"
    "getTodos_limit q = (case q_limit q of None \<Rightarrow> 10 | Some l \<Rightarrow> l)"
    using assms(2) by (auto simp: getTodos_limit_def split: option.splits)
  have 1: "total (pagination r) = length (filter (where_matches (getTodos_where q)) (todos s))"
    using mset_eq_length[OF m] by (simp add: pg)
  have 2: "per_page (pagination r) = (case q_limit q of None \<Rightarrow> 10 | Some l \<Rightarrow> l)"
    using l(2) by (simp add: pg)
  have 3: "total_pages (pagination r) =
      Finite \<lceil>real (total (pagination r)) / real_of_int (per_page (pagination r))\<rceil>"
    using l(1) by (simp add: pg Math_ceil_div_def)
  have 4: "\<exists>n. total_pages (pagination r) = Finite n \<and>
              (n - 1) * per_page (pagination r) < int (total (pagination r)) \<and>
              int (total (pagination r)) \<le> n * per_page (pagination r)"
    using Math_ceil_div_pos[OF l(1), of "length ordered"] by (simp add: pg)
  have 5: "total_pages (pagination r) = Finite 0 \<and> data r = []"
    if "total (pagination r) = 0"
    using that l(1) by (simp add: pg d Math_ceil_div_def)
  from 1 2 3 4 5 show ?thesis by blast
qed

theorem getTodos_total_pages_witness:
  "getTodos example_store_three example_query (Inr example_page_two) \<and>
   q_limit example_query = Some 2 \<and>
   total (pagination example_page_two) = 3 \<and>
   per_page (pagination example_page_two) = 2 \<and>
   total_pages (pagination example_page_two) = Finite 2 \<and>
   length (filter (where_matches (getTodos_where example_query))
             (todos example_store_three)) = 3 \<and>
   getTodos example_store_three (example_query\<lparr>q_priority := Some ''urgent''\<rparr>)
     (Inr \<lparr>data = [],
           pagination = \<lparr>total = 0, current_page = 2, per_page = 2, total_pages = Finite 0\<rparr>\<rparr>) \<and>
   length (filter (where_matches (getTodos_where (example_query\<lparr>q_priority := Some ''urgent''\<rparr>)))
             (todos example_store_three)) = 0"
proof -
  have q: "q_limit example_query = Some 2"
    "q_limit (example_query\<lparr>q_priority := Some ''urgent''\<rparr>) = Some 2"
    by (simp_all add: example_query_def)
  have p: "total (pagination example_page_two) = 3"
    "per_page (pagination example_page_two) = 2"
    "total_pages (pagination example_page_two) = Finite 2"
    by (simp_all add: example_page_two_def)
  from getTodos_total_pages[OF example_getTodos] q(1) p(1)
  have 1: "length (filter (where_matches (getTodos_where example_query))
             (todos example_store_three)) = 3"
    by simp
  from getTodos_total_pages[OF example_getTodos_none] q(2)
  have 2: "length (filter (where_matches
              (getTodos_where (example_query\<lparr>q_priority := Some ''urgent''\<rparr>)))
             (todos example_store_three)) = 0"
    by simp
  from example_getTodos q(1) p 1 example_getTodos_none 2 show ?thesis by simp
qed

section \<open>List ordering\<close>




section \<open>Delete Category\<close>



section \<open>Update Todo\<close>



section \<open>Category names\<close>

text \<open>
  C7. Creating a Category under a name that a stored Category has, character for
  character, answers 400 \<open>Category already exists\<close> and leaves the store as it was; under
  a name no stored Category has (and with the next identifier free) the Category is
  stored. Updating a Category to a non-empty name that differs from its own and that
  another stored Category has answers 400 \<open>Category name already exists\<close> and leaves the
  store as it was. An update whose name is the Category's own name, or a name no stored
  Category has, succeeds and the Category has that name.
\<close>

theorem category_name_unique:
  "(\<forall>n. cb_name b = Some n \<and> (\<exists>c \<in> set (categories s). c_name c = n) \<longrightarrow>
      createCategory now s b = (Inl (Failure 400 ''Category already exists''), s)) \<and>
   (\<forall>n. cb_name b = Some n \<and> (\<forall>c \<in> set (categories s). c_name c \<noteq> n) \<and>
        findByPk_Category s (category_seq s) = None \<longrightarrow>
      (\<exists>cat. createCategory now s b = (Inr cat, s\<lparr>categories := categories s @ [cat],
                                                   category_seq := category_seq s + 1\<rparr>) \<and>
         c_name cat = n)) \<and>
   (\<forall>cat n. findByPk_Category s i = Some cat \<and> cb_name b = Some n \<and> n \<noteq> [] \<and>
        n \<noteq> c_name cat \<and> (\<exists>c \<in> set (categories s). c \<noteq> cat \<and> c_name c = n) \<longrightarrow>
      updateCategory now s i b = (Inl (Failure 400 ''Category name already exists''), s)) \<and>
   (\<forall>cat n. findByPk_Category s i = Some cat \<and> cb_name b = Some n \<and> n \<noteq> [] \<and>
        (n = c_name cat \<or> (\<forall>c \<in> set (categories s). c_name c \<noteq> n)) \<longrightarrow>
      (\<exists>cat' s'. updateCategory now s i b = (Inr cat', s') \<and>
         findByPk_Category s' i = Some cat' \<and> c_name cat' = n))"
proof (intro conjI allI impI)
  fix n
  assume "cb_name b = Some n \<and> (\<exists>c \<in> set (categories s). c_name c = n)"
  then obtain e where "cb_name b = Some n" "findOne_Category_name s n = Some e"
    using findOne_Category_name_collision[of _ s n] by blast
  then show "createCategory now s b = (Inl (Failure 400 ''Category already exists''), s)"
    by (simp add: createCategory_def)
next
  fix n
  assume a: "cb_name b = Some n \<and> (\<forall>c \<in> set (categories s). c_name c \<noteq> n) \<and>
        findByPk_Category s (category_seq s) = None"
  then have "findOne_Category_name s n = None"
    by (simp add: findOne_Category_name_None_iff)
  with a show "\<exists>cat. createCategory now s b = (Inr cat, s\<lparr>categories := categories s @ [cat],
                                                   category_seq := category_seq s + 1\<rparr>) \<and>
         c_name cat = n"
    by (simp add: createCategory_def Category_create_def Let_def)
next
  fix cat n
  assume a: "findByPk_Category s i = Some cat \<and> cb_name b = Some n \<and> n \<noteq> [] \<and>
        n \<noteq> c_name cat \<and> (\<exists>c \<in> set (categories s). c \<noteq> cat \<and> c_name c = n)"
  then obtain e where "findOne_Category_name s n = Some e"
    using findOne_Category_name_collision[of _ s n] by blast
  with a show "updateCategory now s i b = (Inl (Failure 400 ''Category name already exists''), s)"
    by (simp add: updateCategory_def truthy_def)
next
  fix cat n
  assume a: "findByPk_Category s i = Some cat \<and> cb_name b = Some n \<and> n \<noteq> [] \<and>
        (n = c_name cat \<or> (\<forall>c \<in> set (categories s). c_name c \<noteq> n))"
  then have "\<forall>m. cb_name b = Some m \<and> m \<noteq> [] \<and> m \<noteq> c_name cat \<longrightarrow>
               (\<forall>c \<in> set (categories s). c_name c \<noteq> m)"
    by auto
  from updateCategory_success[OF _ this, of i now] a
  show "\<exists>cat' s'. updateCategory now s i b = (Inr cat', s') \<and>
         findByPk_Category s' i = Some cat' \<and> c_name cat' = n"
    by (auto simp: or_default_def truthy_def)
qed

theorem category_name_unique_witness:
  "createCategory 300 example_store_two \<lparr>cb_name = Some ''Work'', cb_color = None\<rparr> =
     (Inl (Failure 400 ''Category already exists''), example_store_two) \<and>
   fst (createCategory 300 example_store_two \<lparr>cb_name = Some ''work'', cb_color = None\<rparr>) =
     Inr \<lparr>c_id = 3, c_name = ''work'', c_color = ''#1890ff'',
          c_createdAt = 300, c_updatedAt = 300\<rparr> \<and>
   findByPk_Category example_store_two 2 = Some example_category_home \<and>
   updateCategory 300 example_store_two 2 \<lparr>cb_name = Some ''Work'', cb_color = None\<rparr> =
     (Inl (Failure 400 ''Category name already exists''), example_store_two) \<and>
   fst (updateCategory 300 example_store_two 2
          \<lparr>cb_name = Some ''Home'', cb_color = Some ''#ff0000''\<rparr>) =
     Inr (example_category_home\<lparr>c_color := ''#ff0000'', c_updatedAt := 300\<rparr>) \<and>
   map_option c_name
     (findByPk_Category
        (snd (updateCategory 300 example_store_two 2
                \<lparr>cb_name = Some ''Home'', cb_color = Some ''#ff0000''\<rparr>)) 2) = Some ''Home''"
proof -
  have m: "example_category \<in> set (categories example_store_two)"
    "example_category_home \<in> set (categories example_store_two)"
    "c_name example_category = ''Work''" "c_name example_category_home = ''Home''"
    "example_category \<noteq> example_category_home"
    by (simp_all add: example_store_two_def example_category_def example_category_home_def)
  have f: "findByPk_Category example_store_two 2 = Some example_category_home"
    by (simp add: findByPk_Category_def example_store_two_def example_category_def
          example_category_home_def)
  note th = category_name_unique[where s = example_store_two and now = 300 and i = 2]
  have 1: "createCategory 300 example_store_two \<lparr>cb_name = Some ''Work'', cb_color = None\<rparr> =
      (Inl (Failure 400 ''Category already exists''), example_store_two)"
    using th[where b = "\<lparr>cb_name = Some ''Work'', cb_color = None\<rparr>"] m(1,3) by auto
  have 2: "createCategory 300 example_store_two \<lparr>cb_name = Some ''work'', cb_color = None\<rparr> =
      (Inr \<lparr>c_id = 3, c_name = ''work'', c_color = ''#1890ff'',
            c_createdAt = 300, c_updatedAt = 300\<rparr>,
       example_store_two
         \<lparr>categories := [example_category, example_category_home,
                         \<lparr>c_id = 3, c_name = ''work'', c_color = ''#1890ff'',
                          c_createdAt = 300, c_updatedAt = 300\<rparr>],
          category_seq := 3 + 1\<rparr>)"
    by (simp add: createCategory_def Category_create_def findOne_Category_name_def
          findByPk_Category_def or_default_def example_store_two_def example_category_def
          example_category_home_def Let_def)
  have 3: "updateCategory 300 example_store_two 2 \<lparr>cb_name = Some ''Work'', cb_color = None\<rparr> =
      (Inl (Failure 400 ''Category name already exists''), example_store_two)"
    using th[where b = "\<lparr>cb_name = Some ''Work'', cb_color = None\<rparr>"] f m by auto
  have 4: "updateCategory 300 example_store_two 2
        \<lparr>cb_name = Some ''Home'', cb_color = Some ''#ff0000''\<rparr> =
      (Inr (example_category_home\<lparr>c_color := ''#ff0000'', c_updatedAt := 300\<rparr>),
       example_store_two
         \<lparr>categories := [example_category,
                         example_category_home\<lparr>c_color := ''#ff0000'', c_updatedAt := 300\<rparr>]\<rparr>)"
    by (simp add: updateCategory_def Category_update_def findOne_Category_name_def
          findByPk_Category_def or_default_def truthy_def example_store_two_def
          example_category_def example_category_home_def Let_def)
  have 5: "map_option c_name
     (findByPk_Category
        (snd (updateCategory 300 example_store_two 2
                \<lparr>cb_name = Some ''Home'', cb_color = Some ''#ff0000''\<rparr>)) 2) = Some ''Home''"
    using th[where b = "\<lparr>cb_name = Some ''Home'', cb_color = Some ''#ff0000''\<rparr>"] f m(4)
    by auto
  from 1 2 f 3 4 5 show ?thesis by simp
qed

section \<open>Referential integrity\<close>

text \<open>
  C8. Neither handler looks the Category up; the foreign key of the store does. A
  create whose body supplies a \<open>category_id\<close> value succeeds only with a row whose
  \<open>category_id\<close> is that value and names a stored Category, and is refused (400) when no
  Category has that identifier: then no row is stored, and the store is as it was but
  for the identifier the refused INSERT took from the sequence (a body without \<open>title\<close>
  is refused before any INSERT, and the store is as it was). In a store with referential
  integrity, an update whose body supplies a \<open>category_id\<close> value succeeds only with the
  Todo's \<open>category_id\<close> set to that value and naming a stored Category; an update that
  would change \<open>category_id\<close> to an identifier no Category has is refused (400, store
  unchanged). Both handlers keep the referential integrity of the store, whatever the
  outcome.
\<close>

theorem category_id_references_category:
  "(\<forall>r s' c. createTodo now s b = (Inr r, s') \<and> b_category_id b = Value c \<longrightarrow>
      findByPk_Category s' c \<noteq> None \<and>
      (\<exists>t. todos s' = todos s @ [t] \<and> t_category_id t = Some c)) \<and>
   (\<forall>c. b_category_id b = Value c \<and> findByPk_Category s c = None \<longrightarrow>
      createTodo now s b =
        (Inl (Failure 400 ''Error creating todo''),
         if b_title b = None then s else s\<lparr>todo_seq := todo_seq s + 1\<rparr>)) \<and>
   (\<forall>r s' c. referential_integrity s \<and> updateTodo now s i b = (Inr r, s') \<and>
        b_category_id b = Value c \<longrightarrow>
      findByPk_Category s' c \<noteq> None \<and>
      map_option t_category_id (findByPk_Todo s' i) = Some (Some c)) \<and>
   (\<forall>t c. findByPk_Todo s i = Some t \<and> b_category_id b = Value c \<and>
        t_category_id t \<noteq> Some c \<and> findByPk_Category s c = None \<longrightarrow>
      updateTodo now s i b = (Inl (Failure 400 ''Error updating todo''), s)) \<and>
   (referential_integrity s \<longrightarrow>
      referential_integrity (snd (createTodo now s b)) \<and>
      referential_integrity (snd (updateTodo now s i b)))"
proof (intro conjI allI impI)
  fix r s' c
  assume a: "createTodo now s b = (Inr r, s') \<and> b_category_id b = Value c"
  from createTodo_Inr[of now s b r s'] a obtain t where
    t: "todos s' = todos s @ [t]" "categories s' = categories s"
      "t_category_id t = column_of (b_category_id b)"
      "references_category s (column_of (b_category_id b))"
    by auto
  from t(2,4) a show "findByPk_Category s' c \<noteq> None"
    by (simp add: column_of_def references_category_def findByPk_Category_def)
  from t(1,3) a show "\<exists>t. todos s' = todos s @ [t] \<and> t_category_id t = Some c"
    by (auto simp: column_of_def)
next
  fix c
  assume "b_category_id b = Value c \<and> findByPk_Category s c = None"
  then show "createTodo now s b =
        (Inl (Failure 400 ''Error creating todo''),
         if b_title b = None then s else s\<lparr>todo_seq := todo_seq s + 1\<rparr>)"
    by (cases "b_title b")
       (simp_all add: createTodo_def Todo_create_def column_of_def references_category_def
          Let_def)
next
  fix r s' c
  assume a: "referential_integrity s \<and> updateTodo now s i b = (Inr r, s') \<and>
        b_category_id b = Value c"
  from updateTodo_Inr[of now s i b r s'] a obtain t where
    t: "findByPk_Todo s i = Some t" and u: "Todo_update now s t (updateTodo_values t b) = Some s'"
    by blast
  have v: "v_category_id (updateTodo_values t b) = Some c"
    using a by (simp add: updateTodo_values_def merge_field_def)
  have "references_category s (t_category_id t)"
    using a findByPk_Todo_mem[OF t] by (simp add: referential_integrity_def list_all_iff)
  with u v have "references_category s (Some c)"
    by (auto simp: Todo_update_def split: option.splits if_splits)
  with Todo_update_categories[OF u] show "findByPk_Category s' c \<noteq> None"
    by (simp add: references_category_def findByPk_Category_def)
  from Todo_update_findByPk[OF t u] v
  show "map_option t_category_id (findByPk_Todo s' i) = Some (Some c)"
    by (auto simp: set_values_fields)
next
  fix t c
  assume "findByPk_Todo s i = Some t \<and> b_category_id b = Value c \<and>
        t_category_id t \<noteq> Some c \<and> findByPk_Category s c = None"
  then show "updateTodo now s i b = (Inl (Failure 400 ''Error updating todo''), s)"
    by (auto simp: updateTodo_def updateTodo_values_def Todo_update_def merge_field_def
          references_category_def)
next
  assume "referential_integrity s"
  then show "referential_integrity (snd (createTodo now s b))"
    by (rule createTodo_integrity)
next
  assume "referential_integrity s"
  then show "referential_integrity (snd (updateTodo now s i b))"
    by (rule updateTodo_integrity)
qed

theorem category_id_references_category_witness:
  "referential_integrity example_store \<and>
   b_category_id example_update = Value 1 \<and>
   fst (updateTodo 300 example_store 1 example_update) =
     Inr (Some \<lparr>tw_todo = example_updated,
                 tw_category = Some \<lparr>cs_id = 1, cs_name = ''Work'', cs_color = ''#0000ff''\<rparr>\<rparr>) \<and>
   findByPk_Category (snd (updateTodo 300 example_store 1 example_update)) 1 \<noteq> None \<and>
   map_option t_category_id
     (findByPk_Todo (snd (updateTodo 300 example_store 1 example_update)) 1) = Some (Some 1) \<and>
   fst (createTodo 300 example_store (example_body\<lparr>b_category_id := Value 1\<rparr>)) =
     Inr (Some \<lparr>tw_todo = example_created\<lparr>t_category_id := Some 1\<rparr>,
                 tw_category = Some \<lparr>cs_id = 1, cs_name = ''Work'', cs_color = ''#0000ff''\<rparr>\<rparr>) \<and>
   findByPk_Category
     (snd (createTodo 300 example_store (example_body\<lparr>b_category_id := Value 1\<rparr>))) 1 \<noteq> None \<and>
   findByPk_Category example_store 9 = None \<and>
   createTodo 300 example_store (example_body\<lparr>b_category_id := Value 9\<rparr>) =
     (Inl (Failure 400 ''Error creating todo''), example_store\<lparr>todo_seq := 4\<rparr>) \<and>
   updateTodo 300 example_store 1 (example_update\<lparr>b_category_id := Value 9\<rparr>) =
     (Inl (Failure 400 ''Error updating todo''), example_store) \<and>
   referential_integrity (snd (updateTodo 300 example_store 1 example_update)) \<and>
   referential_integrity
     (snd (createTodo 300 example_store (example_body\<lparr>b_category_id := Value 1\<rparr>)))"
proof -
  have ri: "referential_integrity example_store"
    by (simp add: referential_integrity_def references_category_def findByPk_Category_def
          example_store_def example_todo_def example_todo_done_def example_category_def)
  have b: "b_category_id example_update = Value 1"
    "b_category_id (example_update\<lparr>b_category_id := Value 9\<rparr>) = Value 9"
    "b_category_id (example_body\<lparr>b_category_id := Value 1\<rparr>) = Value 1"
    "b_category_id (example_body\<lparr>b_category_id := Value 9\<rparr>) = Value 9"
    by (simp_all add: example_update_def)
  have f: "findByPk_Todo example_store 1 = Some example_todo"
    "t_category_id example_todo \<noteq> Some 9"
    by (simp_all add: findByPk_Todo_def example_store_def example_todo_def)
  have n: "findByPk_Category example_store 9 = None"
    by (simp add: findByPk_Category_def example_store_def example_category_def)
  have c: "createTodo 300 example_store (example_body\<lparr>b_category_id := Value 1\<rparr>) =
     (Inr (Some \<lparr>tw_todo = example_created\<lparr>t_category_id := Some 1\<rparr>,
                 tw_category = Some \<lparr>cs_id = 1, cs_name = ''Work'', cs_color = ''#0000ff''\<rparr>\<rparr>),
      example_store\<lparr>todos := [example_todo, example_todo_done,
                                example_created\<lparr>t_category_id := Some 1\<rparr>],
                     todo_seq := 3 + 1\<rparr>)"
    by (simp add: createTodo_def Todo_create_def example_store_def example_body_def
        example_todo_def example_todo_done_def example_created_def example_category_def
        column_of_def references_category_def findByPk_Todo_def findByPk_Category_def
        findByPk_Todo_included_def include_category_def Let_def)
  note u = updateTodo_example
  note t1 = category_id_references_category[where s = example_store and now = 300
      and i = 1 and b = "example_body\<lparr>b_category_id := Value 1\<rparr>"]
  note t9 = category_id_references_category[where s = example_store and now = 300
      and i = 1 and b = "example_body\<lparr>b_category_id := Value 9\<rparr>"]
  note tu = category_id_references_category[where s = example_store and now = 300
      and i = 1 and b = example_update]
  note tu9 = category_id_references_category[where s = example_store and now = 300
      and i = 1 and b = "example_update\<lparr>b_category_id := Value 9\<rparr>"]
  have 1: "findByPk_Category (snd (updateTodo 300 example_store 1 example_update)) 1 \<noteq> None"
    "map_option t_category_id
      (findByPk_Todo (snd (updateTodo 300 example_store 1 example_update)) 1) = Some (Some 1)"
    "referential_integrity (snd (updateTodo 300 example_store 1 example_update))"
    using tu ri b(1) u by auto
  have 2: "findByPk_Category
      (snd (createTodo 300 example_store (example_body\<lparr>b_category_id := Value 1\<rparr>))) 1 \<noteq> None"
    "referential_integrity
      (snd (createTodo 300 example_store (example_body\<lparr>b_category_id := Value 1\<rparr>)))"
    using t1 ri b(3) c by auto
  have ti: "b_title (example_body\<lparr>b_category_id := Value 9\<rparr>) \<noteq> None"
    "todo_seq example_store + 1 = 4"
    by (simp_all add: example_body_def example_store_def)
  have 3: "createTodo 300 example_store (example_body\<lparr>b_category_id := Value 9\<rparr>) =
      (Inl (Failure 400 ''Error creating todo''), example_store\<lparr>todo_seq := 4\<rparr>)"
    using t9 b(4) n ti by auto
  have 4: "updateTodo 300 example_store 1 (example_update\<lparr>b_category_id := Value 9\<rparr>) =
      (Inl (Failure 400 ''Error updating todo''), example_store)"
    using tu9 b(2) n f by blast
  from ri b(1) u c 1 2 n 3 4 show ?thesis by simp
qed

section \<open>Toggle\<close>



section \<open>Create Todo\<close>

text \<open>
  C10. \<^verbatim>\<open>createTodo\<close> does not read \<open>completed\<close> from the request: changing that field of the
  body changes nothing. A successful create appends one row, answers with it, and the
  row has \<open>completed = false\<close>; whatever the outcome, every completed Todo of the store
  after the call was already there before it.
\<close>

theorem createTodo_completed_false:
  "createTodo now s (b\<lparr>b_completed := c\<rparr>) = createTodo now s b \<and>
   (\<forall>r s'. createTodo now s b = (Inr r, s') \<longrightarrow>
      (\<exists>t. todos s' = todos s @ [t] \<and> r = Some (include_category s' t) \<and>
           t_completed t = False)) \<and>
   (\<forall>t \<in> set (todos (snd (createTodo now s b))). t_completed t \<longrightarrow> t \<in> set (todos s))"
proof (intro conjI allI impI ballI)
  show "createTodo now s (b\<lparr>b_completed := c\<rparr>) = createTodo now s b"
    by (simp add: createTodo_def)
next
  fix r s'
  assume "createTodo now s b = (Inr r, s')"
  from createTodo_Inr[OF this]
  show "\<exists>t. todos s' = todos s @ [t] \<and> r = Some (include_category s' t) \<and> t_completed t = False"
    by blast
next
  fix t
  assume t: "t \<in> set (todos (snd (createTodo now s b)))" and c: "t_completed t"
  obtain r s' where e: "createTodo now s b = (r, s')" by (cases "createTodo now s b")
  show "t \<in> set (todos s)"
  proof (cases r)
    case (Inl e')
    with e t createTodo_Inl(1)[of now s b e' s'] show ?thesis by simp
  next
    case (Inr r')
    with e createTodo_Inr[of now s b r' s'] t c show ?thesis by auto
  qed
qed

theorem createTodo_completed_false_witness:
  "b_completed example_body = Some True \<and>
   fst (createTodo 300 example_store example_body) =
     Inr (Some \<lparr>tw_todo = example_created, tw_category = None\<rparr>) \<and>
   t_completed example_created = False \<and>
   filter t_completed (todos (snd (createTodo 300 example_store example_body))) =
     [example_todo_done] \<and>
   example_todo_done \<in> set (todos example_store)"
  using createTodo_completed_false[where now = 300 and s = example_store
      and b = example_body and c = "Some True"]
    createTodo_example
  by (simp add: example_body_def example_store_def example_todo_def example_todo_done_def
        example_created_def)

end
